theory Spec2Isabelle
  imports Main
begin

section \<open>Data model (src/models/__init__.py)\<close>

text \<open>
  Values of Python type \<open>Any\<close> that tools return and tool calls carry: the JSON-like
  builtin values. A float is kept as mantissa and binary exponent, or one of the three
  special values; only its truth value is computed here.
\<close>

datatype pyfloat = Finite int int | PosInf | NegInf | NaN

datatype pyval =
    PyNone
  | PyBool bool
  | PyInt int
  | PyFloat pyfloat
  | PyStr string
  | PyList "pyval list"
  | PyDict "(pyval \<times> pyval) list"

text \<open>Python's truth value of an object, \<open>bool(x)\<close>, as \<open>if x\<close> and \<open>not x\<close> test it.\<close>

fun truthy :: "pyval \<Rightarrow> bool" where
  "truthy PyNone = False"
| "truthy (PyBool b) = b"
| "truthy (PyInt i) = (i \<noteq> 0)"
| "truthy (PyFloat (Finite m e)) = (m \<noteq> 0)"
| "truthy (PyFloat PosInf) = True"
| "truthy (PyFloat NegInf) = True"
| "truthy (PyFloat NaN) = True"
| "truthy (PyStr s) = (s \<noteq> [])"
| "truthy (PyList xs) = (xs \<noteq> [])"
| "truthy (PyDict kvs) = (kvs \<noteq> [])"

text \<open>
  What ends a call without a value. \<open>Exn\<close> is an exception of class \<open>Exception\<close> or a
  subclass of it, with its class name and the text \<open>str(e)\<close>; \<open>BaseExn\<close> is one of the
  other subclasses of \<open>BaseException\<close> (\<open>SystemExit\<close>, \<open>KeyboardInterrupt\<close>,
  \<open>CancelledError\<close>); \<open>NeverReturns\<close> is a call that does not come back. A clause
  \<open>except Exception\<close> catches the first kind only; the other two pass every handler of
  this program, and nothing after such a call runs.
\<close>

datatype exn =
    Exn (cls: string) (msg: string)
  | BaseExn (cls: string) (msg: string)
  | NeverReturns

fun is_Exception :: "exn \<Rightarrow> bool" where
  "is_Exception (Exn c m) = True"
| "is_Exception (BaseExn c m) = False"
| "is_Exception NeverReturns = False"

text \<open>
  An effectful call (the provider's backend, a tool) takes the state of the outside
  world and gives what ended the call or its value, and the new world.
\<close>

type_synonym ('w, 'a) action = "'w \<Rightarrow> (exn + 'a) \<times> 'w"

datatype MessageRole = USER | ASSISTANT | SYSTEM | TOOL

fun role_value :: "MessageRole \<Rightarrow> string" where
  "role_value USER = ''user''"
| "role_value ASSISTANT = ''assistant''"
| "role_value SYSTEM = ''system''"
| "role_value TOOL = ''tool''"

record ToolCall =
  tc_id :: string
  tc_name :: string
  tc_arguments :: "(string \<times> pyval) list"

record Message =
  role :: MessageRole
  content :: string
  name :: "string option"
  tool_call_id :: "string option"
  tool_calls :: "ToolCall list option"
  metadata :: "(string \<times> pyval) list option"

record ToolResult =
  tr_tool_call_id :: string
  result :: pyval
  error :: "string option"

text \<open>
  \<open>AgentConfig\<close>; the sampling temperature (a float handed unchanged to the provider)
  is left out.
\<close>

datatype AIProvider = ANTHROPIC | OPENAI

record AgentConfig =
  cfg_id :: string
  cfg_name :: string
  description :: "string option"
  system_prompt :: string
  provider :: AIProvider
  model :: string
  max_tokens :: "int option"
  tools :: "string list"

subsection \<open>Construction of the pydantic models\<close>

text \<open>
  \<open>Message(...)\<close>: the class declares field types and no validator. \<open>role\<close> and
  \<open>content\<close> have no default, so leaving one out (\<open>None\<close> here) is a
  \<open>ValidationError\<close>; the other fields default to \<open>None\<close>. The text of the error is
  abridged.
\<close>

definition Message_init ::
  "MessageRole option \<Rightarrow> string option \<Rightarrow> string option \<Rightarrow> string option \<Rightarrow>
   ToolCall list option \<Rightarrow> (string \<times> pyval) list option \<Rightarrow> exn + Message" where
  "Message_init r c n tid tcs md =
     (case (r, c) of
        (Some r', Some c') \<Rightarrow>
          Inr \<lparr>role = r', content = c', name = n, tool_call_id = tid, tool_calls = tcs,
               metadata = md\<rparr>
      | (None, Some c') \<Rightarrow> Inl (Exn ''ValidationError'' ''role: Field required'')
      | (Some r', None) \<Rightarrow> Inl (Exn ''ValidationError'' ''content: Field required'')
      | (None, None) \<Rightarrow>
          Inl (Exn ''ValidationError'' ''role: Field required; content: Field required''))"

text \<open>
  \<open>ToolCall(id=..., name=..., arguments=v)\<close> for an arbitrary value \<open>v\<close>: the field is
  declared \<open>dict[str, Any]\<close>, so \<open>v\<close> must be a dictionary whose keys are all strings.
\<close>

fun str_keyed :: "(pyval \<times> pyval) list \<Rightarrow> (string \<times> pyval) list option" where
  "str_keyed [] = Some []"
| "str_keyed ((PyStr k, v) # kvs) =
     (case str_keyed kvs of None \<Rightarrow> None | Some rest \<Rightarrow> Some ((k, v) # rest))"
| "str_keyed ((_, v) # kvs) = None"

definition ToolCall_init :: "string \<Rightarrow> string \<Rightarrow> pyval \<Rightarrow> exn + ToolCall" where
  "ToolCall_init i n v =
     (case v of
        PyDict kvs \<Rightarrow>
          (case str_keyed kvs of
             Some args \<Rightarrow> Inr \<lparr>tc_id = i, tc_name = n, tc_arguments = args\<rparr>
           | None \<Rightarrow> Inl (Exn ''ValidationError'' ''arguments: Input should be a valid string''))
      | _ \<Rightarrow> Inl (Exn ''ValidationError'' ''arguments: Input should be a valid dictionary''))"

text \<open>
  The invariant of a Message as the specification words it (section 3): a tool message
  carries the identifier of the tool call it answers; the tool-call list of an assistant
  message, when present, is non-empty with pairwise different identifiers.
\<close>

definition spec_Message_invariant :: "Message \<Rightarrow> bool" where
  "spec_Message_invariant m =
     (case role m of
        TOOL \<Rightarrow> tool_call_id m \<noteq> None
      | ASSISTANT \<Rightarrow>
          (case tool_calls m of
             None \<Rightarrow> True
           | Some tcs \<Rightarrow> tcs \<noteq> [] \<and> distinct (map tc_id tcs))
      | _ \<Rightarrow> True)"

section \<open>Tool registry (src/tools/__init__.py)\<close>

text \<open>
  A tool: its name, description, argument schema and what \<open>execute(args)\<close> does. The
  three registered implementations call \<open>eval\<close>, the clock and \<open>json.loads\<close>; the
  registry \<open>TOOLS\<close> is a parameter of the model, a dictionary from names to tools.
\<close>

record 'w Tool =
  tool_name :: string
  tool_description :: string
  parameters :: pyval
  execute :: "(string \<times> pyval) list \<Rightarrow> ('w, pyval) action"

type_synonym 'w registry = "string \<rightharpoonup> 'w Tool"

definition get_tool :: "'w registry \<Rightarrow> string \<Rightarrow> 'w Tool option" where
  "get_tool TOOLS nm = TOOLS nm"


text \<open>\<open>Tool.to_definition\<close> and \<open>get_tool_definitions\<close>: unknown names are skipped.\<close>

definition to_definition :: "'w Tool \<Rightarrow> pyval" where
  "to_definition t =
     PyDict [(PyStr ''name'', PyStr (tool_name t)),
             (PyStr ''description'', PyStr (tool_description t)),
             (PyStr ''input_schema'', parameters t)]"

fun get_tool_definitions :: "'w registry \<Rightarrow> string list \<Rightarrow> pyval list" where
  "get_tool_definitions TOOLS [] = []"
| "get_tool_definitions TOOLS (nm # tool_names) =
     (case TOOLS nm of
        None \<Rightarrow> get_tool_definitions TOOLS tool_names
      | Some t \<Rightarrow> to_definition t # get_tool_definitions TOOLS tool_names)"

section \<open>Agent loop (src/agents/__init__.py)\<close>

text \<open>
  The body of the \<open>try\<close> block of \<open>Agent._execute_tool\<close>: whatever ends
  \<open>tool.execute\<close> without a value leaves the block.
\<close>

definition execute_tool_try ::
  "AgentConfig \<Rightarrow> 'w registry \<Rightarrow> ToolCall \<Rightarrow> ('w, ToolResult) action" where
  "execute_tool_try self TOOLS tool_call w =
     (case get_tool TOOLS (tc_name tool_call) of
        None \<Rightarrow>
          (Inr \<lparr>tr_tool_call_id = tc_id tool_call, result = PyNone,
                error = Some (''Tool not found: '' @ tc_name tool_call)\<rparr>, w)
      | Some tool \<Rightarrow>
          (case execute tool (tc_arguments tool_call) w of
             (Inl e, w') \<Rightarrow> (Inl e, w')
           | (Inr r, w') \<Rightarrow>
               (Inr \<lparr>tr_tool_call_id = tc_id tool_call, result = r, error = None\<rparr>, w')))"

text \<open>
  \<open>Agent._execute_tool\<close>: the \<open>try\<close> block under \<open>except Exception as e\<close>. What the
  clause does not catch leaves the method.
\<close>

definition execute_tool ::
  "AgentConfig \<Rightarrow> 'w registry \<Rightarrow> ToolCall \<Rightarrow> ('w, ToolResult) action" where
  "execute_tool self TOOLS tool_call w =
     (case execute_tool_try self TOOLS tool_call w of
        (Inl e, w') \<Rightarrow>
          (case e of
             Exn c m \<Rightarrow>
               (Inr \<lparr>tr_tool_call_id = tc_id tool_call, result = PyNone,
                     error = Some m\<rparr>, w')
           | _ \<Rightarrow> (Inl e, w'))
      | (Inr r, w') \<Rightarrow> (Inr r, w'))"

text \<open>
  The content of the tool-role message:
  \<open>str(result.result) if result.result else result.error or ""\<close>.
  Python's \<open>str\<close> is the parameter \<open>py_str\<close>.
\<close>

definition tool_content :: "(pyval \<Rightarrow> string) \<Rightarrow> ToolResult \<Rightarrow> string" where
  "tool_content py_str r =
     (if truthy (result r) then py_str (result r)
      else (case error r of
              None \<Rightarrow> []
            | Some e \<Rightarrow> if e \<noteq> [] then e else []))"

definition tool_message :: "(pyval \<Rightarrow> string) \<Rightarrow> ToolCall \<Rightarrow> ToolResult \<Rightarrow> Message" where
  "tool_message py_str tool_call r =
     \<lparr>role = TOOL, content = tool_content py_str r, name = None,
      tool_call_id = Some (tc_id tool_call), tool_calls = None, metadata = None\<rparr>"

text \<open>
  The \<open>for tool_call in response.tool_calls\<close> loop of \<open>Agent.chat\<close>, on the two lists it
  appends to.
\<close>

fun dispatch ::
  "(pyval \<Rightarrow> string) \<Rightarrow> AgentConfig \<Rightarrow> 'w registry \<Rightarrow> ToolCall list \<Rightarrow>
   ToolResult list \<times> Message list \<Rightarrow> ('w, ToolResult list \<times> Message list) action" where
  "dispatch py_str self TOOLS [] (tool_results, current_messages) w =
     (Inr (tool_results, current_messages), w)"
| "dispatch py_str self TOOLS (tool_call # rest) (tool_results, current_messages) w =
     (case execute_tool self TOOLS tool_call w of
        (Inl e, w') \<Rightarrow> (Inl e, w')
      | (Inr r, w') \<Rightarrow>
          dispatch py_str self TOOLS rest
            (tool_results @ [r], current_messages @ [tool_message py_str tool_call r]) w')"

text \<open>
  The provider object of the agent: \<open>complete\<close> on the conversation, with the agent's
  fixed system prompt, tool definitions and options already given.
\<close>

type_synonym 'w complete = "Message list \<Rightarrow> ('w, Message) action"

definition limit_message :: Message where
  "limit_message =
     \<lparr>role = ASSISTANT,
      content = ''I'' @ [CHR 0x27] @
        ''ve reached the maximum number of steps. Please try again with a simpler request.'',
      name = None, tool_call_id = None, tool_calls = None, metadata = None\<rparr>"

text \<open>
  What one pass through the body of the \<open>while\<close> loop ends with. The test
  \<open>not response.tool_calls\<close> holds of \<open>None\<close> and of the empty list.
\<close>

datatype pass =
    Return Message "ToolResult list"
  | Raise exn
  | Again "ToolResult list" "Message list"

definition chat_pass ::
  "(pyval \<Rightarrow> string) \<Rightarrow> AgentConfig \<Rightarrow> 'w complete \<Rightarrow> 'w registry \<Rightarrow>
   ToolResult list \<times> Message list \<Rightarrow> 'w \<Rightarrow> pass \<times> 'w" where
  "chat_pass py_str self complete TOOLS st w =
     (case st of (tool_results, current_messages) \<Rightarrow>
        (case complete current_messages w of
           (Inl e, w1) \<Rightarrow> (Raise e, w1)
         | (Inr response, w1) \<Rightarrow>
             (case tool_calls response of
                None \<Rightarrow> (Return response tool_results, w1)
              | Some tcs \<Rightarrow>
                  if tcs = [] then (Return response tool_results, w1)
                  else
                    (case dispatch py_str self TOOLS tcs
                            (tool_results, current_messages @ [response]) w1 of
                       (Inl e, w2) \<Rightarrow> (Raise e, w2)
                     | (Inr (tool_results', current_messages'), w2) \<Rightarrow>
                         (Again tool_results' current_messages', w2)))))"

text \<open>The \<open>while iterations < max_iterations\<close> loop and the return after it.\<close>

function chat_loop ::
  "(pyval \<Rightarrow> string) \<Rightarrow> AgentConfig \<Rightarrow> 'w complete \<Rightarrow> 'w registry \<Rightarrow> int \<Rightarrow>
   ToolResult list \<times> Message list \<Rightarrow> int \<Rightarrow> ('w, Message \<times> ToolResult list) action" where
  "chat_loop py_str self complete TOOLS max_iterations st iterations w =
     (if iterations < max_iterations then
        (case chat_pass py_str self complete TOOLS st w of
           (Return response tool_results, w') \<Rightarrow> (Inr (response, tool_results), w')
         | (Raise e, w') \<Rightarrow> (Inl e, w')
         | (Again tool_results current_messages, w') \<Rightarrow>
             chat_loop py_str self complete TOOLS max_iterations
               (tool_results, current_messages) (iterations + 1) w')
      else (Inr (limit_message, fst st), w))"
  by pat_completeness auto
termination
  by (relation "measure (\<lambda>(py_str, self, complete, TOOLS, max_iterations, st, iterations, w).
                   nat (max_iterations - iterations))") auto

text \<open>\<open>Agent.chat\<close>.\<close>

definition chat ::
  "(pyval \<Rightarrow> string) \<Rightarrow> AgentConfig \<Rightarrow> 'w complete \<Rightarrow> 'w registry \<Rightarrow>
   Message list \<Rightarrow> int \<Rightarrow> ('w, Message \<times> ToolResult list) action" where
  "chat py_str self complete TOOLS messages max_iterations w =
     chat_loop py_str self complete TOOLS max_iterations ([], messages) 0 w"

text \<open>
  The state of the loop after \<open>k\<close> passes that each went on to the next: the tool results
  and the conversation that pass \<open>k + 1\<close> starts with, if the loop gets that far.
\<close>

fun after_passes ::
  "(pyval \<Rightarrow> string) \<Rightarrow> AgentConfig \<Rightarrow> 'w complete \<Rightarrow> 'w registry \<Rightarrow> nat \<Rightarrow>
   ToolResult list \<times> Message list \<Rightarrow> 'w \<Rightarrow> ((ToolResult list \<times> Message list) \<times> 'w) option" where
  "after_passes py_str self complete TOOLS 0 st w = Some (st, w)"
| "after_passes py_str self complete TOOLS (Suc k) st w =
     (case chat_pass py_str self complete TOOLS st w of
        (Again tool_results current_messages, w') \<Rightarrow>
          after_passes py_str self complete TOOLS k (tool_results, current_messages) w'
      | (Return response tool_results, w') \<Rightarrow> None
      | (Raise e, w') \<Rightarrow> None)"

section \<open>Provider adapters (src/agents/__init__.py)\<close>

text \<open>
  The dictionaries \<open>{"role": ..., "content": ...}\<close> sent to a backend, and the requests.
  The backend call (\<open>client.messages.create\<close>, \<open>client.chat.completions.create\<close>) is a
  parameter. \<open>complete\<close> is modelled as \<open>Agent.chat\<close> calls it: \<open>max_tokens\<close> is always
  passed (possibly \<open>None\<close>), the temperature is left out.
\<close>

record api_message =
  am_role :: string
  am_content :: string

record backend_request =
  rq_model :: string
  rq_max_tokens :: "int option"
  rq_system :: "string option"
  rq_messages :: "api_message list"
  rq_tools :: "pyval list option"

definition to_api_message :: "Message \<Rightarrow> api_message" where
  "to_api_message m = \<lparr>am_role = role_value (role m), am_content = content m\<rparr>"

text \<open>\<open>AnthropicProvider.complete\<close>, the conversion of the messages.\<close>

definition anthropic_messages :: "Message list \<Rightarrow> api_message list" where
  "anthropic_messages messages =
     map to_api_message (filter (\<lambda>m. role m = USER \<or> role m = ASSISTANT) messages)"

definition anthropic_request ::
  "string \<Rightarrow> Message list \<Rightarrow> string \<Rightarrow> pyval list option \<Rightarrow> int option \<Rightarrow> backend_request" where
  "anthropic_request mdl messages sys tls mt =
     \<lparr>rq_model = mdl, rq_max_tokens = mt, rq_system = Some sys,
      rq_messages = anthropic_messages messages,
      rq_tools = (case tls of None \<Rightarrow> None | Some ts \<Rightarrow> if ts = [] then None else Some ts)\<rparr>"

datatype block =
    TextBlock string
  | ToolUseBlock string string "(string \<times> pyval) list"
  | OtherBlock

record anthropic_response =
  blocks :: "block list"
  input_tokens :: int
  output_tokens :: int

text \<open>The \<open>for block in response.content\<close> loop: the last text wins, tool uses pile up.\<close>

fun anthropic_parse :: "block list \<Rightarrow> string \<times> ToolCall list \<Rightarrow> string \<times> ToolCall list" where
  "anthropic_parse [] (c, tcs) = (c, tcs)"
| "anthropic_parse (TextBlock t # bs) (c, tcs) = anthropic_parse bs (t, tcs)"
| "anthropic_parse (ToolUseBlock i n args # bs) (c, tcs) =
     anthropic_parse bs (c, tcs @ [\<lparr>tc_id = i, tc_name = n, tc_arguments = args\<rparr>])"
| "anthropic_parse (OtherBlock # bs) (c, tcs) = anthropic_parse bs (c, tcs)"

definition AnthropicProvider_complete ::
  "(backend_request \<Rightarrow> ('w, anthropic_response) action) \<Rightarrow> string \<Rightarrow> Message list \<Rightarrow>
   string \<Rightarrow> pyval list option \<Rightarrow> int option \<Rightarrow> ('w, Message) action" where
  "AnthropicProvider_complete create mdl messages sys tls mt w =
     (case create (anthropic_request mdl messages sys tls mt) w of
        (Inl e, w') \<Rightarrow> (Inl e, w')
      | (Inr response, w') \<Rightarrow>
          (case anthropic_parse (blocks response) ([], []) of
             (c, tcs) \<Rightarrow>
               (Inr \<lparr>role = ASSISTANT, content = c, name = None, tool_call_id = None,
                     tool_calls = (if tcs \<noteq> [] then Some tcs else None),
                     metadata = Some [(''model'', PyStr mdl),
                                      (''input_tokens'', PyInt (input_tokens response)),
                                      (''output_tokens'', PyInt (output_tokens response))]\<rparr>,
                w')))"

text \<open>
  \<open>OpenAIProvider.complete\<close>. A tool call of the response carries its arguments as a
  string, which the adapter hands to Python's \<open>eval\<close>, the parameter \<open>py_eval\<close>.
\<close>

record openai_tool_call =
  otc_id :: string
  otc_name :: string
  otc_arguments :: string

record openai_message =
  om_content :: "string option"
  om_tool_calls :: "openai_tool_call list option"

record openai_usage =
  prompt_tokens :: int
  completion_tokens :: int

record openai_response =
  choices :: "openai_message list"
  usage :: "openai_usage option"

definition openai_request ::
  "string \<Rightarrow> Message list \<Rightarrow> string \<Rightarrow> pyval list option \<Rightarrow> int option \<Rightarrow> backend_request" where
  "openai_request mdl messages sys tls mt =
     \<lparr>rq_model = mdl, rq_max_tokens = mt, rq_system = None,
      rq_messages = \<lparr>am_role = ''system'', am_content = sys\<rparr> # map to_api_message messages,
      rq_tools =
        (case tls of
           None \<Rightarrow> None
         | Some ts \<Rightarrow>
             if ts = [] then None
             else Some (map (\<lambda>t. PyDict [(PyStr ''type'', PyStr ''function''),
                                          (PyStr ''function'', t)]) ts))\<rparr>"

definition decode_tool_call ::
  "(string \<Rightarrow> exn + pyval) \<Rightarrow> openai_tool_call \<Rightarrow> exn + ToolCall" where
  "decode_tool_call py_eval tc =
     (case py_eval (otc_arguments tc) of
        Inl e \<Rightarrow> Inl e
      | Inr v \<Rightarrow> ToolCall_init (otc_id tc) (otc_name tc) v)"

text \<open>The list comprehension over \<open>choice.message.tool_calls\<close>: the first failure ends it.\<close>

fun parse_tool_calls ::
  "(string \<Rightarrow> exn + pyval) \<Rightarrow> openai_tool_call list \<Rightarrow> exn + ToolCall list" where
  "parse_tool_calls py_eval [] = Inr []"
| "parse_tool_calls py_eval (tc # tcs) =
     (case decode_tool_call py_eval tc of
        Inl e \<Rightarrow> Inl e
      | Inr c \<Rightarrow>
          (case parse_tool_calls py_eval tcs of
             Inl e \<Rightarrow> Inl e
           | Inr cs \<Rightarrow> Inr (c # cs)))"

definition openai_metadata :: "string \<Rightarrow> openai_usage option \<Rightarrow> (string \<times> pyval) list" where
  "openai_metadata mdl u =
     [(''model'', PyStr mdl),
      (''input_tokens'', (case u of None \<Rightarrow> PyNone | Some x \<Rightarrow> PyInt (prompt_tokens x))),
      (''output_tokens'', (case u of None \<Rightarrow> PyNone | Some x \<Rightarrow> PyInt (completion_tokens x)))]"

text \<open>The \<open># Parse tool calls\<close> step: \<open>None\<close> unless the response lists tool calls.\<close>

definition openai_tool_calls ::
  "(string \<Rightarrow> exn + pyval) \<Rightarrow> openai_message \<Rightarrow> exn + ToolCall list option" where
  "openai_tool_calls py_eval choice =
     (case om_tool_calls choice of
        None \<Rightarrow> Inr None
      | Some tcs \<Rightarrow>
          if tcs = [] then Inr None
          else (case parse_tool_calls py_eval tcs of
                  Inl e \<Rightarrow> Inl e
                | Inr cs \<Rightarrow> Inr (Some cs)))"

definition OpenAIProvider_complete ::
  "(backend_request \<Rightarrow> ('w, openai_response) action) \<Rightarrow> (string \<Rightarrow> exn + pyval) \<Rightarrow> string \<Rightarrow>
   Message list \<Rightarrow> string \<Rightarrow> pyval list option \<Rightarrow> int option \<Rightarrow> ('w, Message) action" where
  "OpenAIProvider_complete create py_eval mdl messages sys tls mt w =
     (case create (openai_request mdl messages sys tls mt) w of
        (Inl e, w') \<Rightarrow> (Inl e, w')
      | (Inr response, w') \<Rightarrow>
          (case choices response of
             [] \<Rightarrow> (Inl (Exn ''IndexError'' ''list index out of range''), w')
           | choice # _ \<Rightarrow>
               (case openai_tool_calls py_eval choice of
                  Inl e \<Rightarrow> (Inl e, w')
                | Inr tcs' \<Rightarrow>
                    (Inr \<lparr>role = ASSISTANT,
                          content = (case om_content choice of None \<Rightarrow> [] | Some c \<Rightarrow> c),
                          name = None, tool_call_id = None, tool_calls = tcs',
                          metadata = Some (openai_metadata mdl (usage response))\<rparr>, w'))))"

text \<open>
  The call \<open>self.provider.complete(messages=current_messages, ...)\<close> of \<open>Agent.chat\<close>
  for the provider that \<open>Agent._create_provider\<close> chose:
  \<open>tools=self.tool_definitions if self.config.tools else None\<close>.
\<close>

definition provider_complete ::
  "(backend_request \<Rightarrow> ('w, anthropic_response) action) \<Rightarrow>
   (backend_request \<Rightarrow> ('w, openai_response) action) \<Rightarrow> (string \<Rightarrow> exn + pyval) \<Rightarrow>
   'w registry \<Rightarrow> AgentConfig \<Rightarrow> 'w complete" where
  "provider_complete anthropic_create openai_create py_eval TOOLS self messages =
     (let tls = (if tools self \<noteq> [] then Some (get_tool_definitions TOOLS (tools self))
                 else None)
      in case provider self of
           ANTHROPIC \<Rightarrow>
             AnthropicProvider_complete anthropic_create (model self) messages
               (system_prompt self) tls (max_tokens self)
         | OPENAI \<Rightarrow>
             OpenAIProvider_complete openai_create py_eval (model self) messages
               (system_prompt self) tls (max_tokens self))"

section \<open>Chat route (src/api/chat.py)\<close>

record ChatRequest =
  rq_message :: string
  agent_id :: string
  conversation_id :: "string option"

record ChatResponse =
  cr_conversation_id :: string
  cr_message :: Message
  cr_tool_results :: "ToolResult list option"

text \<open>
  What leaves the route instead of a response: the \<open>HTTPException\<close> it raises, or what
  its \<open>except Exception\<close> does not catch.
\<close>

datatype route_error = HTTPException int string | Uncaught exn

text \<open>
  The route: \<open>get_agent\<close> (the registry of agents, each with its provider) and the fresh
  \<open>uuid4\<close> are parameters; \<open>agent.chat(messages)\<close> runs with the default cap of 10. The
  result is the \<open>ChatResponse\<close> that the route wraps into \<open>ApiResponse(success=True)\<close>, or
  the \<open>HTTPException\<close> it raises. The fields \<open>context\<close> and \<open>stream\<close> of the request are
  not read by the route and are left out.
\<close>

definition api_chat ::
  "(pyval \<Rightarrow> string) \<Rightarrow> (string \<Rightarrow> (AgentConfig \<times> 'w complete) option) \<Rightarrow> 'w registry \<Rightarrow>
   string \<Rightarrow> ChatRequest \<Rightarrow> 'w \<Rightarrow> (route_error + ChatResponse) \<times> 'w" where
  "api_chat py_str get_agent TOOLS uuid4 request w =
     (case get_agent (agent_id request) of
        None \<Rightarrow> (Inl (HTTPException 404 (''Agent not found: '' @ agent_id request)), w)
      | Some (self, complete) \<Rightarrow>
          (case chat py_str self complete TOOLS
                  [\<lparr>role = USER, content = rq_message request, name = None,
                    tool_call_id = None, tool_calls = None, metadata = None\<rparr>] 10 w of
             (Inl e, w') \<Rightarrow>
               (case e of
                  Exn c m \<Rightarrow> (Inl (HTTPException 500 m), w')
                | _ \<Rightarrow> (Inl (Uncaught e), w'))
           | (Inr (response_message, tool_results), w') \<Rightarrow>
               (Inr \<lparr>cr_conversation_id =
                       (case conversation_id request of
                          None \<Rightarrow> uuid4
                        | Some c \<Rightarrow> if c \<noteq> [] then c else uuid4),
                     cr_message = response_message,
                     cr_tool_results =
                       (if tool_results \<noteq> [] then Some tool_results else None)\<rparr>, w')))"

section \<open>Agent loop on a store of list objects\<close>

text \<open>
  \<open>Agent.chat\<close> once more, with the message lists as mutable objects: the store holds
  the list objects, a reference is an index into it. \<open>list(messages)\<close> makes a new
  object, \<open>append\<close> changes an object in place, and the provider is handed the object
  that \<open>current_messages\<close> refers to. The store outlives an exception. A reference is
  valid when it is below the length of the store.
\<close>

type_synonym store = "Message list list"

definition list_copy :: "store \<Rightarrow> nat \<Rightarrow> nat \<times> store" where
  "list_copy s a = (length s, s @ [s ! a])"

definition list_append :: "store \<Rightarrow> nat \<Rightarrow> Message \<Rightarrow> store" where
  "list_append s a m = s[a := s ! a @ [m]]"

fun dispatch_store ::
  "(pyval \<Rightarrow> string) \<Rightarrow> AgentConfig \<Rightarrow> 'w registry \<Rightarrow> ToolCall list \<Rightarrow> nat \<Rightarrow>
   ToolResult list \<Rightarrow> (store \<times> 'w, ToolResult list) action" where
  "dispatch_store py_str self TOOLS [] current_messages tool_results (s, w) =
     (Inr tool_results, (s, w))"
| "dispatch_store py_str self TOOLS (tool_call # rest) current_messages tool_results (s, w) =
     (case execute_tool self TOOLS tool_call w of
        (Inl e, w') \<Rightarrow> (Inl e, (s, w'))
      | (Inr r, w') \<Rightarrow>
          dispatch_store py_str self TOOLS rest current_messages (tool_results @ [r])
            (list_append s current_messages (tool_message py_str tool_call r), w'))"

datatype pass_store =
    Return_store Message "ToolResult list"
  | Raise_store exn
  | Again_store "ToolResult list"

definition chat_pass_store ::
  "(pyval \<Rightarrow> string) \<Rightarrow> AgentConfig \<Rightarrow> 'w complete \<Rightarrow> 'w registry \<Rightarrow> nat \<Rightarrow>
   ToolResult list \<Rightarrow> store \<times> 'w \<Rightarrow> pass_store \<times> store \<times> 'w" where
  "chat_pass_store py_str self complete TOOLS current_messages tool_results sw =
     (case sw of (s, w) \<Rightarrow>
        (case complete (s ! current_messages) w of
           (Inl e, w1) \<Rightarrow> (Raise_store e, (s, w1))
         | (Inr response, w1) \<Rightarrow>
             (case tool_calls response of
                None \<Rightarrow> (Return_store response tool_results, (s, w1))
              | Some tcs \<Rightarrow>
                  if tcs = [] then (Return_store response tool_results, (s, w1))
                  else
                    (case dispatch_store py_str self TOOLS tcs current_messages tool_results
                            (list_append s current_messages response, w1) of
                       (Inl e, sw2) \<Rightarrow> (Raise_store e, sw2)
                     | (Inr tool_results', sw2) \<Rightarrow> (Again_store tool_results', sw2)))))"

function chat_loop_store ::
  "(pyval \<Rightarrow> string) \<Rightarrow> AgentConfig \<Rightarrow> 'w complete \<Rightarrow> 'w registry \<Rightarrow> int \<Rightarrow> nat \<Rightarrow>
   ToolResult list \<Rightarrow> int \<Rightarrow> (store \<times> 'w, Message \<times> ToolResult list) action" where
  "chat_loop_store py_str self complete TOOLS max_iterations current_messages tool_results
     iterations sw =
     (if iterations < max_iterations then
        (case chat_pass_store py_str self complete TOOLS current_messages tool_results sw of
           (Return_store response tool_results', sw') \<Rightarrow> (Inr (response, tool_results'), sw')
         | (Raise_store e, sw') \<Rightarrow> (Inl e, sw')
         | (Again_store tool_results', sw') \<Rightarrow>
             chat_loop_store py_str self complete TOOLS max_iterations current_messages
               tool_results' (iterations + 1) sw')
      else (Inr (limit_message, tool_results), sw))"
  by pat_completeness auto
termination
  by (relation "measure (\<lambda>(py_str, self, complete, TOOLS, max_iterations, current_messages,
                   tool_results, iterations, sw). nat (max_iterations - iterations))") auto

definition chat_store ::
  "(pyval \<Rightarrow> string) \<Rightarrow> AgentConfig \<Rightarrow> 'w complete \<Rightarrow> 'w registry \<Rightarrow> nat \<Rightarrow> int \<Rightarrow>
   (store \<times> 'w, Message \<times> ToolResult list) action" where
  "chat_store py_str self complete TOOLS messages max_iterations sw =
     (case sw of (s, w) \<Rightarrow>
        (case list_copy s messages of (current_messages, s1) \<Rightarrow>
           chat_loop_store py_str self complete TOOLS max_iterations current_messages [] 0
             (s1, w)))"

section \<open>Example inputs\<close>

text \<open>
  A world that counts the provider calls and the tool executions made so far, a stand-in
  for the calculator that is right on the expressions \<open>2 + 2\<close>, \<open>2 - 2\<close>, \<open>1/0\<close> and
  \<open>abs.__self__.__import__('sys').exit(3)\<close> (the last reaches \<open>sys.exit\<close> through the
  builtin \<open>abs\<close>, and the \<open>SystemExit\<close> passes the tool's own \<open>except Exception\<close>), and
  the two kinds of agent of \<open>DEFAULT_AGENTS\<close>: one with tools, one with an empty tool list
  (their system prompts are shortened).
\<close>

type_synonym counters = "nat \<times> nat"

definition exit_expression :: string where
  "exit_expression =
     ''abs.__self__.__import__('' @ [CHR 0x27] @ ''sys'' @ [CHR 0x27] @ '').exit(3)''"

definition calculator_value :: "(string \<times> pyval) list \<Rightarrow> exn + pyval" where
  "calculator_value args =
     (case map_of args ''expression'' of
        None \<Rightarrow> Inl (Exn ''KeyError'' ([CHR 0x27] @ ''expression'' @ [CHR 0x27]))
      | Some v \<Rightarrow>
          if v = PyStr ''2 + 2'' then Inr (PyFloat (Finite 4 0))
          else if v = PyStr ''2 - 2'' then Inr (PyFloat (Finite 0 0))
          else if v = PyStr ''1/0'' then
            Inl (Exn ''ValueError'' ''Invalid expression: division by zero'')
          else if v = PyStr exit_expression then Inl (BaseExn ''SystemExit'' ''3'')
          else Inl (Exn ''ValueError'' ''Invalid expression: invalid syntax''))"

definition calculator :: "counters Tool" where
  "calculator =
     \<lparr>tool_name = ''calculator'', tool_description = ''Perform mathematical calculations.'',
      parameters = PyDict [(PyStr ''type'', PyStr ''object'')],
      execute = (\<lambda>args w. (calculator_value args, (fst w, Suc (snd w))))\<rparr>"

definition TOOLS_calculator :: "counters registry" where
  "TOOLS_calculator = [''calculator'' \<mapsto> calculator]"

definition agent_assistant :: AgentConfig where
  "agent_assistant =
     \<lparr>cfg_id = ''assistant'', cfg_name = ''General Assistant'',
      description = Some ''A helpful AI assistant'',
      system_prompt = ''You are a helpful AI assistant.'', provider = ANTHROPIC,
      model = ''claude-3-5-sonnet-20241022'', max_tokens = None,
      tools = [''calculator'', ''current_time'']\<rparr>"


definition user_message :: "string \<Rightarrow> Message" where
  "user_message c =
     \<lparr>role = USER, content = c, name = None, tool_call_id = None, tool_calls = None,
      metadata = None\<rparr>"

definition assistant_message :: "string \<Rightarrow> ToolCall list option \<Rightarrow> Message" where
  "assistant_message c tcs =
     \<lparr>role = ASSISTANT, content = c, name = None, tool_call_id = None, tool_calls = tcs,
      metadata = None\<rparr>"

definition calc_call :: "string \<Rightarrow> string \<Rightarrow> ToolCall" where
  "calc_call i e =
     \<lparr>tc_id = i, tc_name = ''calculator'', tc_arguments = [(''expression'', PyStr e)]\<rparr>"


text \<open>A provider that asks for the calculator on every call.\<close>

definition complete_always_calls :: "counters complete" where
  "complete_always_calls messages w =
     (Inr (assistant_message ''Let me compute.'' (Some [calc_call ''call_1'' ''2 + 2''])),
      (Suc (fst w), snd w))"

text \<open>A provider that asks for the calculator on its first call and fails afterwards.\<close>

definition complete_then_fails :: "counters complete" where
  "complete_then_fails messages w =
     (if fst w = 0 then
        Inr (assistant_message ''Let me compute.'' (Some [calc_call ''call_1'' ''2 + 2'']))
      else Inl (Exn ''APIConnectionError'' ''Connection error.''),
      (Suc (fst w), snd w))"



text \<open>A rendering of values, for the examples only: everything prints as \<open>?\<close>.\<close>

definition str_stub :: "pyval \<Rightarrow> string" where
  "str_stub v = ''?''"

text \<open>The agent registry and a request of the chat route for the failing provider.\<close>

definition get_agent_then_fails :: "string \<Rightarrow> (AgentConfig \<times> counters complete) option" where
  "get_agent_then_fails i =
     (if i = ''assistant'' then Some (agent_assistant, complete_then_fails) else None)"

definition chat_request :: "string \<Rightarrow> ChatRequest" where
  "chat_request m = \<lparr>rq_message = m, agent_id = ''assistant'', conversation_id = None\<rparr>"

text \<open>
  A stand-in for \<open>eval\<close> on three payloads, and an OpenAI backend whose response asks for
  the calculator with the payload \<open>1/0\<close>.
\<close>

definition eval_stub :: "string \<Rightarrow> exn + pyval" where
  "eval_stub s =
     (if s = ''{}'' then Inr (PyDict [])
      else if s = ''[1, 2]'' then Inr (PyList [PyInt 1, PyInt 2])
      else if s = ''1/0'' then Inl (Exn ''ZeroDivisionError'' ''division by zero'')
      else Inl (Exn ''SyntaxError'' ''invalid syntax''))"

definition openai_call :: "string \<Rightarrow> openai_tool_call" where
  "openai_call payload = \<lparr>otc_id = ''call_1'', otc_name = ''calculator'', otc_arguments = payload\<rparr>"

definition openai_reply :: "string \<Rightarrow> openai_response" where
  "openai_reply payload =
     \<lparr>choices = [\<lparr>om_content = None, om_tool_calls = Some [openai_call payload]\<rparr>],
      usage = None\<rparr>"

definition openai_create_stub :: "string \<Rightarrow> backend_request \<Rightarrow> ('w, openai_response) action" where
  "openai_create_stub payload request w = (Inr (openai_reply payload), w)"

text \<open>
  An Anthropic backend that keeps the requests it receives: its first response asks for
  three calculations \<open>A\<close>, \<open>B\<close>, \<open>C\<close>, the later ones are plain text. The calculator
  beside it leaves the world alone.
\<close>

definition anthropic_create_log ::
  "backend_request \<Rightarrow> (backend_request list, anthropic_response) action" where
  "anthropic_create_log request w =
     (if w = [] then
        Inr \<lparr>blocks = [TextBlock ''Let me compute.'',
                       ToolUseBlock ''A'' ''calculator'' [(''expression'', PyStr ''2 + 2'')],
                       ToolUseBlock ''B'' ''calculator'' [(''expression'', PyStr ''1/0'')],
                       ToolUseBlock ''C'' ''calculator'' [(''expression'', PyStr ''2 - 2'')]],
             input_tokens = 10, output_tokens = 5\<rparr>
      else Inr \<lparr>blocks = [TextBlock ''Done.''], input_tokens = 20, output_tokens = 1\<rparr>,
      w @ [request])"

definition calculator_pure :: "'w Tool" where
  "calculator_pure =
     \<lparr>tool_name = ''calculator'', tool_description = ''Perform mathematical calculations.'',
      parameters = PyDict [(PyStr ''type'', PyStr ''object'')],
      execute = (\<lambda>args w. (calculator_value args, w))\<rparr>"

definition TOOLS_pure :: "'w registry" where
  "TOOLS_pure = [''calculator'' \<mapsto> calculator_pure]"

definition three_calls :: "ToolCall list" where
  "three_calls =
     [\<lparr>tc_id = ''A'', tc_name = ''calculator'', tc_arguments = [(''expression'', PyStr ''2 + 2'')]\<rparr>,
      \<lparr>tc_id = ''B'', tc_name = ''calculator'', tc_arguments = [(''expression'', PyStr ''1/0'')]\<rparr>,
      \<lparr>tc_id = ''C'', tc_name = ''calculator'', tc_arguments = [(''expression'', PyStr ''2 - 2'')]\<rparr>]"

definition three_results :: "ToolResult list" where
  "three_results =
     [\<lparr>tr_tool_call_id = ''A'', result = PyFloat (Finite 4 0), error = None\<rparr>,
      \<lparr>tr_tool_call_id = ''B'', result = PyNone,
        error = Some ''Invalid expression: division by zero''\<rparr>,
      \<lparr>tr_tool_call_id = ''C'', result = PyFloat (Finite 0 0), error = None\<rparr>]"

definition tool_reply :: "string \<Rightarrow> string \<Rightarrow> Message" where
  "tool_reply i c =
     \<lparr>role = TOOL, content = c, name = None, tool_call_id = Some i, tool_calls = None,
      metadata = None\<rparr>"

text \<open>
  The assistant agent on that backend, the assistant message its first response parses
  to, and the request that the agent's settings make of a list of messages.
\<close>

definition anthropic_complete_log :: "backend_request list complete" where
  "anthropic_complete_log =
     provider_complete anthropic_create_log (openai_create_stub ''{}'') eval_stub TOOLS_pure
       agent_assistant"

definition first_reply :: Message where
  "first_reply =
     \<lparr>role = ASSISTANT, content = ''Let me compute.'', name = None, tool_call_id = None,
      tool_calls = Some three_calls,
      metadata = Some [(''model'', PyStr ''claude-3-5-sonnet-20241022''),
                       (''input_tokens'', PyInt 10), (''output_tokens'', PyInt 5)]\<rparr>"

definition request_for :: "api_message list \<Rightarrow> backend_request" where
  "request_for ms =
     \<lparr>rq_model = ''claude-3-5-sonnet-20241022'', rq_max_tokens = None,
      rq_system = Some ''You are a helpful AI assistant.'', rq_messages = ms,
      rq_tools = Some [to_definition (calculator_pure :: backend_request list Tool)]\<rparr>"

text \<open>A tool message that lacks the identifier of its tool call.\<close>

definition orphan_tool_message :: Message where
  "orphan_tool_message =
     \<lparr>role = TOOL, content = ''4.0'', name = None, tool_call_id = None, tool_calls = None,
      metadata = None\<rparr>"

section \<open>Dispatch of tool calls\<close>

text \<open>
  The ways through \<open>_execute_tool\<close>, with the \<open>try\<close> and \<open>except\<close> folded: the name is
  not registered, the tool raises an \<open>Exception\<close>, the tool ends otherwise without a
  value, the tool returns.
\<close>

lemma execute_tool_cases:
  "execute_tool self TOOLS tc w =
     (case TOOLS (tc_name tc) of
        None \<Rightarrow>
          (Inr \<lparr>tr_tool_call_id = tc_id tc, result = PyNone,
                error = Some (''Tool not found: '' @ tc_name tc)\<rparr>, w)
      | Some tool \<Rightarrow>
          (case execute tool (tc_arguments tc) w of
             (Inl e, w') \<Rightarrow>
               (case e of
                  Exn c m \<Rightarrow>
                    (Inr \<lparr>tr_tool_call_id = tc_id tc, result = PyNone, error = Some m\<rparr>, w')
                | _ \<Rightarrow> (Inl e, w'))
           | (Inr r, w') \<Rightarrow>
               (Inr \<lparr>tr_tool_call_id = tc_id tc, result = r, error = None\<rparr>, w')))"
  by (simp add: execute_tool_def execute_tool_try_def get_tool_def
      split: prod.splits sum.splits option.splits exn.splits)

lemma execute_tool_returns:
  assumes "\<And>t e w'. TOOLS (tc_name tc) = Some t \<Longrightarrow>
             execute t (tc_arguments tc) w = (Inl e, w') \<Longrightarrow> is_Exception e"
  shows "\<exists>r w'. execute_tool self TOOLS tc w = (Inr r, w')"
proof (cases "TOOLS (tc_name tc)")
  case None
  then show ?thesis by (simp add: execute_tool_cases)
next
  case (Some t)
  obtain y w1 where y: "execute t (tc_arguments tc) w = (y, w1)"
    by (cases "execute t (tc_arguments tc) w")
  show ?thesis
  proof (cases y)
    case (Inl e)
    then have "is_Exception e" using assms [OF Some] y by simp
    then show ?thesis using Some y Inl by (cases e) (simp_all add: execute_tool_cases)
  next
    case (Inr v)
    then show ?thesis using Some y by (simp add: execute_tool_cases)
  qed
qed

text \<open>What leaves \<open>_execute_tool\<close> is what the tool ended with, and no \<open>Exception\<close>.\<close>

lemma execute_tool_raises:
  assumes "execute_tool self TOOLS tc w = (Inl e, w')"
  shows "\<not> is_Exception e \<and>
         (\<exists>t. TOOLS (tc_name tc) = Some t \<and> execute t (tc_arguments tc) w = (Inl e, w'))"
proof (cases "TOOLS (tc_name tc)")
  case None
  then show ?thesis using assms by (simp add: execute_tool_cases)
next
  case (Some t)
  obtain y w1 where y: "execute t (tc_arguments tc) w = (y, w1)"
    by (cases "execute t (tc_arguments tc) w")
  show ?thesis
  proof (cases y)
    case (Inl e')
    then show ?thesis using Some y assms by (cases e') (auto simp: execute_tool_cases)
  next
    case (Inr v)
    then show ?thesis using Some y assms by (simp add: execute_tool_cases)
  qed
qed

lemma execute_tool_id:
  "execute_tool self TOOLS tc w = (Inr r, w') \<Longrightarrow> tr_tool_call_id r = tc_id tc"
  by (auto simp: execute_tool_cases split: option.splits prod.splits sum.splits exn.splits)

lemma tool_message_shape:
  "role (tool_message py_str tc r) = TOOL \<and>
   tool_call_id (tool_message py_str tc r) = Some (tc_id tc) \<and>
   content (tool_message py_str tc r) =
     (if truthy (result r) then py_str (result r)
      else case error r of None \<Rightarrow> [] | Some e \<Rightarrow> e)"
  by (simp add: tool_message_def tool_content_def split: option.splits)


text \<open>A batch that ends early ends with what a tool ended with, and no \<open>Exception\<close>.\<close>

lemma dispatch_raises:
  "dispatch py_str self TOOLS tcs (trs, msgs) w = (Inl e, w') \<Longrightarrow> \<not> is_Exception e"
proof (induction tcs arbitrary: trs msgs w)
  case Nil
  then show ?case by simp
next
  case (Cons tc tcs)
  obtain y w1 where y: "execute_tool self TOOLS tc w = (y, w1)"
    by (cases "execute_tool self TOOLS tc w")
  show ?case
  proof (cases y)
    case (Inl e')
    then show ?thesis using Cons.prems y execute_tool_raises [of self TOOLS tc w e' w1] by simp
  next
    case (Inr r)
    then show ?thesis using Cons.prems y Cons.IH by simp
  qed
qed


text \<open>The loop after \<open>k\<close> passes that went on is the loop from the state they left.\<close>

lemma chat_loop_after_passes:
  assumes "after_passes py_str self complete TOOLS k st w = Some (st', w')"
      and "iterations + int k \<le> max_iterations"
  shows "chat_loop py_str self complete TOOLS max_iterations st iterations w =
         chat_loop py_str self complete TOOLS max_iterations st' (iterations + int k) w'"
  using assms
proof (induction k arbitrary: st w iterations)
  case 0
  then show ?case by simp
next
  case (Suc k)
  obtain p w1 where p: "chat_pass py_str self complete TOOLS st w = (p, w1)"
    by (cases "chat_pass py_str self complete TOOLS st w")
  show ?case
  proof (cases p)
    case (Return m r)
    then show ?thesis using Suc.prems p by simp
  next
    case (Raise e)
    then show ?thesis using Suc.prems p by simp
  next
    case (Again r msgs)
    have a: "after_passes py_str self complete TOOLS k (r, msgs) w1 = Some (st', w')"
      using Suc.prems(1) p Again by simp
    have b: "(iterations + 1) + int k \<le> max_iterations" using Suc.prems(2) by simp
    have idx: "(iterations + 1) + int k = iterations + int (Suc k)" by simp
    have lt: "iterations < max_iterations" using Suc.prems(2) by simp
    have "chat_loop py_str self complete TOOLS max_iterations st iterations w =
          chat_loop py_str self complete TOOLS max_iterations (r, msgs) (iterations + 1) w1"
      by (subst chat_loop.simps) (simp only: lt if_True p Again prod.case pass.case)
    also have "\<dots> =
          chat_loop py_str self complete TOOLS max_iterations st' ((iterations + 1) + int k) w'"
      using Suc.IH [OF a b] .
    finally show ?thesis by (simp only: idx)
  qed
qed

section \<open>Counting provider calls\<close>






section \<open>The examples, step by step\<close>

lemma execute_calc_4:
  "execute_tool self TOOLS_calculator (calc_call i ''2 + 2'') w =
     (Inr \<lparr>tr_tool_call_id = i, result = PyFloat (Finite 4 0), error = None\<rparr>,
      (fst w, Suc (snd w)))"
  by (simp add: execute_tool_cases TOOLS_calculator_def calc_call_def calculator_def
      calculator_value_def)

lemma execute_calc_exit:
  "execute_tool self TOOLS_calculator (calc_call i exit_expression) w =
     (Inl (BaseExn ''SystemExit'' ''3''), (fst w, Suc (snd w)))"
  by (simp add: execute_tool_cases TOOLS_calculator_def calc_call_def calculator_def
      calculator_value_def exit_expression_def)

lemma execute_calc_zero_division:
  "execute_tool self TOOLS_calculator (calc_call i ''1/0'') w =
     (Inr \<lparr>tr_tool_call_id = i, result = PyNone,
           error = Some ''Invalid expression: division by zero''\<rparr>, (fst w, Suc (snd w)))"
  by (simp add: execute_tool_cases TOOLS_calculator_def calc_call_def calculator_def
      calculator_value_def)


lemma pass1_then_fails:
  "chat_pass py_str self complete_then_fails TOOLS_calculator ([], msgs) (0, 0) =
     (Again [\<lparr>tr_tool_call_id = ''call_1'', result = PyFloat (Finite 4 0), error = None\<rparr>]
        (msgs @ [assistant_message ''Let me compute.'' (Some [calc_call ''call_1'' ''2 + 2'']),
                 tool_message py_str (calc_call ''call_1'' ''2 + 2'')
                   \<lparr>tr_tool_call_id = ''call_1'', result = PyFloat (Finite 4 0), error = None\<rparr>]),
      (1, 1))"
  by (simp add: chat_pass_def complete_then_fails_def assistant_message_def execute_calc_4)

lemma pass2_then_fails:
  "chat_pass py_str self complete_then_fails TOOLS_calculator (trs, msgs) (Suc n, k) =
     (Raise (Exn ''APIConnectionError'' ''Connection error.''), (Suc (Suc n), k))"
  by (simp add: chat_pass_def complete_then_fails_def)

text \<open>
  The chat route answers an \<open>Exception\<close> of \<open>agent.chat\<close> with status 500 and the text
  of the exception; what is no \<open>Exception\<close> passes the route.
\<close>

lemma api_chat_failure:
  assumes "get_agent (agent_id request) = Some (self, complete)"
      and "chat py_str self complete TOOLS
             [\<lparr>role = USER, content = rq_message request, name = None, tool_call_id = None,
               tool_calls = None, metadata = None\<rparr>] 10 w = (Inl e, w')"
  shows "api_chat py_str get_agent TOOLS uuid4 request w =
           (Inl (case e of Exn c m \<Rightarrow> HTTPException 500 m | _ \<Rightarrow> Uncaught e), w')"
  using assms by (simp add: api_chat_def split: exn.splits)

section \<open>Decoding the arguments of OpenAI tool calls\<close>

text \<open>If one payload of the list fails to decode, the list fails with the first such failure.\<close>

lemma parse_tool_calls_fails:
  assumes "tc \<in> set tcs" and "decode_tool_call py_eval tc = Inl e0"
  shows "\<exists>e tc'. parse_tool_calls py_eval tcs = Inl e \<and> tc' \<in> set tcs
           \<and> decode_tool_call py_eval tc' = Inl e"
  using assms
proof (induction tcs)
  case Nil
  then show ?case by simp
next
  case (Cons x xs)
  show ?case
  proof (cases "decode_tool_call py_eval x")
    case (Inl e)
    then show ?thesis by (intro exI [of _ e] exI [of _ x]) simp
  next
    case (Inr c)
    then have "tc \<in> set xs" using Cons.prems by auto
    then obtain e tc' where "parse_tool_calls py_eval xs = Inl e" "tc' \<in> set xs"
      "decode_tool_call py_eval tc' = Inl e"
      using Cons.IH Cons.prems(2) by blast
    then show ?thesis using Inr by (intro exI [of _ e] exI [of _ tc']) simp
  qed
qed

text \<open>A payload fails to decode when \<open>eval\<close> raises or its value is no string-keyed dictionary.\<close>

lemma decode_tool_call_fails_iff:
  "(\<exists>e. decode_tool_call py_eval tc = Inl e) =
     (case py_eval (otc_arguments tc) of
        Inl e \<Rightarrow> True
      | Inr v \<Rightarrow> (case v of PyDict kvs \<Rightarrow> str_keyed kvs = None | _ \<Rightarrow> True))"
  by (simp add: decode_tool_call_def ToolCall_init_def split: sum.splits pyval.splits option.splits)

section \<open>The Anthropic adapter on the conversation of the loop\<close>

lemma anthropic_messages_append:
  "anthropic_messages (xs @ ys) = anthropic_messages xs @ anthropic_messages ys"
  by (simp add: anthropic_messages_def)

text \<open>Whatever a batch returned, the request is the one built without its tool messages.\<close>

lemma anthropic_messages_drops_tool_messages:
  "anthropic_messages (msgs @ map2 (tool_message py_str) tcs rs) = anthropic_messages msgs"
proof -
  have "filter (\<lambda>m. role m = USER \<or> role m = ASSISTANT) (map2 (tool_message py_str) tcs rs) = []"
    by (auto simp: filter_empty_conv tool_message_def)
  then show ?thesis by (simp add: anthropic_messages_def)
qed

lemma execute_pure:
  "execute_tool self TOOLS_pure \<lparr>tc_id = i, tc_name = ''calculator'', tc_arguments = args\<rparr> w =
     (case calculator_value args of
        Inl e \<Rightarrow>
          (case e of
             Exn c m \<Rightarrow> (Inr \<lparr>tr_tool_call_id = i, result = PyNone, error = Some m\<rparr>, w)
           | _ \<Rightarrow> (Inl e, w))
      | Inr v \<Rightarrow> (Inr \<lparr>tr_tool_call_id = i, result = v, error = None\<rparr>, w))"
  by (simp add: execute_tool_cases TOOLS_pure_def calculator_pure_def
      split: sum.splits exn.splits)

lemma dispatch_three:
  "dispatch py_str self TOOLS_pure three_calls (trs, msgs) w =
     (Inr (trs @ three_results,
           msgs @ [tool_reply ''A'' (py_str (PyFloat (Finite 4 0))),
                   tool_reply ''B'' ''Invalid expression: division by zero'',
                   tool_reply ''C'' []]), w)"
  by (simp add: three_calls_def three_results_def execute_pure calculator_value_def
      tool_message_def tool_content_def tool_reply_def)

lemma tools_assistant:
  "get_tool_definitions (TOOLS_pure :: backend_request list registry) (tools agent_assistant) =
     [to_definition (calculator_pure :: backend_request list Tool)]"
  by (simp add: agent_assistant_def TOOLS_pure_def)

lemma assistant_fields:
  "provider agent_assistant = ANTHROPIC"
  "model agent_assistant = ''claude-3-5-sonnet-20241022''"
  "system_prompt agent_assistant = ''You are a helpful AI assistant.''"
  "max_tokens agent_assistant = None"
  "tools agent_assistant \<noteq> []"
  by (simp_all add: agent_assistant_def)

lemma complete_log_first:
  "anthropic_complete_log msgs [] = (Inr first_reply, [request_for (anthropic_messages msgs)])"
  by (simp add: anthropic_complete_log_def provider_complete_def tools_assistant
      AnthropicProvider_complete_def anthropic_create_log_def anthropic_request_def
      first_reply_def three_calls_def request_for_def assistant_fields)

lemma complete_log_later:
  "w \<noteq> [] \<Longrightarrow> anthropic_complete_log msgs w =
     (Inr \<lparr>role = ASSISTANT, content = ''Done.'', name = None, tool_call_id = None,
           tool_calls = None,
           metadata = Some [(''model'', PyStr ''claude-3-5-sonnet-20241022''),
                       (''input_tokens'', PyInt 20), (''output_tokens'', PyInt 1)]\<rparr>,
      w @ [request_for (anthropic_messages msgs)])"
  by (simp add: anthropic_complete_log_def provider_complete_def tools_assistant
      AnthropicProvider_complete_def anthropic_create_log_def anthropic_request_def
      request_for_def assistant_fields)

lemma pass_log_first:
  "chat_pass py_str agent_assistant anthropic_complete_log TOOLS_pure ([], msgs) [] =
     (Again three_results
        (msgs @ [first_reply, tool_reply ''A'' (py_str (PyFloat (Finite 4 0))),
                 tool_reply ''B'' ''Invalid expression: division by zero'',
                 tool_reply ''C'' []]),
      [request_for (anthropic_messages msgs)])"
proof -
  have tc: "tool_calls first_reply = Some three_calls" "three_calls \<noteq> []"
    by (simp_all add: first_reply_def three_calls_def)
  show ?thesis
    by (simp add: chat_pass_def complete_log_first tc dispatch_three)
qed

section \<open>The loop on the store and the loop on values\<close>

text \<open>
  With a valid reference, the loop on the store computes what the loop on values computes
  and changes no list object but the one \<open>current_messages\<close> refers to.
\<close>

lemma dispatch_store_refines:
  assumes "current_messages < length s"
  shows "\<exists>msgs'. dispatch_store py_str self TOOLS tcs current_messages trs (s, w) =
           (case dispatch py_str self TOOLS tcs (trs, s ! current_messages) w of
              (Inl e, w') \<Rightarrow> (Inl e, (s[current_messages := msgs'], w'))
            | (Inr (trs', msgs), w') \<Rightarrow> (Inr trs', (s[current_messages := msgs], w')))"
  using assms
proof (induction tcs arbitrary: trs s w)
  case Nil
  then show ?case by simp
next
  case (Cons tc tcs)
  obtain y w1 where y: "execute_tool self TOOLS tc w = (y, w1)"
    by (cases "execute_tool self TOOLS tc w")
  show ?case
  proof (cases y)
    case (Inl e)
    then show ?thesis using y
      by (intro exI [of _ "s ! current_messages"]) simp
  next
    case (Inr r)
    let ?s = "list_append s current_messages (tool_message py_str tc r)"
    have len: "current_messages < length ?s"
      using Cons.prems by (simp add: list_append_def)
    have at: "?s ! current_messages = s ! current_messages @ [tool_message py_str tc r]"
      using Cons.prems by (simp add: list_append_def)
    have upd: "\<And>m. ?s[current_messages := m] = s[current_messages := m]"
      by (simp add: list_append_def)
    obtain m where
      "dispatch_store py_str self TOOLS tcs current_messages (trs @ [r]) (?s, w1) =
         (case dispatch py_str self TOOLS tcs (trs @ [r], ?s ! current_messages) w1 of
            (Inl e, w') \<Rightarrow> (Inl e, (?s[current_messages := m], w'))
          | (Inr (trs', msgs), w') \<Rightarrow> (Inr trs', (?s[current_messages := msgs], w')))"
      using Cons.IH [OF len, of "trs @ [r]" w1] by blast
    then show ?thesis using y Inr
      by (intro exI [of _ m]) (auto simp: at upd split: prod.splits sum.splits)
  qed
qed

text \<open>A pass changes at most the list object of \<open>current_messages\<close>.\<close>

lemma chat_pass_store_refines:
  assumes "current_messages < length s"
  shows "\<exists>msgs'. chat_pass_store py_str self complete TOOLS current_messages trs (s, w) =
           (case chat_pass py_str self complete TOOLS (trs, s ! current_messages) w of
              (Return m r, w') \<Rightarrow> (Return_store m r, (s[current_messages := msgs'], w'))
            | (Raise e, w') \<Rightarrow> (Raise_store e, (s[current_messages := msgs'], w'))
            | (Again r msgs, w') \<Rightarrow> (Again_store r, (s[current_messages := msgs], w')))"
proof (cases "complete (s ! current_messages) w")
  case (Pair out w1)
  show ?thesis
  proof (cases out)
    case (Inl e)
    then show ?thesis using Pair
      by (intro exI [of _ "s ! current_messages"]) (simp add: chat_pass_store_def chat_pass_def)
  next
    case (Inr response)
    show ?thesis
    proof (cases "tool_calls response = None \<or> tool_calls response = Some []")
      case True
      then show ?thesis using Pair Inr
        by (intro exI [of _ "s ! current_messages"])
           (auto simp: chat_pass_store_def chat_pass_def)
    next
      case False
      then obtain tcs where tcs: "tool_calls response = Some tcs" "tcs \<noteq> []" by auto
      let ?s = "list_append s current_messages response"
      have len: "current_messages < length ?s" using assms by (simp add: list_append_def)
      have at: "?s ! current_messages = s ! current_messages @ [response]"
        using assms by (simp add: list_append_def)
      have upd: "\<And>m. ?s[current_messages := m] = s[current_messages := m]"
        by (simp add: list_append_def)
      obtain m where m:
        "dispatch_store py_str self TOOLS tcs current_messages trs (?s, w1) =
           (case dispatch py_str self TOOLS tcs (trs, ?s ! current_messages) w1 of
              (Inl e, w') \<Rightarrow> (Inl e, (?s[current_messages := m], w'))
            | (Inr (trs', msgs), w') \<Rightarrow> (Inr trs', (?s[current_messages := msgs], w')))"
        using dispatch_store_refines [OF len, of py_str self TOOLS tcs trs w1] by blast
      obtain d w2 where d:
        "dispatch py_str self TOOLS tcs (trs, s ! current_messages @ [response]) w1 = (d, w2)"
        by (cases "dispatch py_str self TOOLS tcs (trs, s ! current_messages @ [response]) w1")
      show ?thesis
      proof (cases d)
        case (Inl e)
        then show ?thesis using Pair Inr tcs m d
          by (intro exI [of _ m]) (simp add: chat_pass_store_def chat_pass_def at upd)
      next
        case (Inr x)
        obtain trs' msgs where x: "x = (trs', msgs)" by (cases x)
        show ?thesis using Pair \<open>out = Inr response\<close> tcs m d Inr x
          by (intro exI [of _ m]) (simp add: chat_pass_store_def chat_pass_def at upd)
      qed
    qed
  qed
qed

lemma chat_loop_store_refines:
  assumes "st = (trs, s ! current_messages)" and "current_messages < length s"
  shows "\<exists>msgs'. chat_loop_store py_str self complete TOOLS max_iterations current_messages trs
                    iterations (s, w) =
           (fst (chat_loop py_str self complete TOOLS max_iterations st iterations w),
            (s[current_messages := msgs'],
             snd (chat_loop py_str self complete TOOLS max_iterations st iterations w)))"
  using assms
proof (induction py_str self complete TOOLS max_iterations st iterations w arbitrary: trs s
         rule: chat_loop.induct)
  case (1 py_str self complete TOOLS max_iterations st iterations w)
  note st = "1.prems"(1) and valid = "1.prems"(2)
  show ?case
  proof (cases "iterations < max_iterations")
    case False
    then show ?thesis using st
      by (intro exI [of _ "s ! current_messages"]) simp
  next
    case True
    obtain p w' where p: "chat_pass py_str self complete TOOLS st w = (p, w')"
      by (cases "chat_pass py_str self complete TOOLS st w")
    obtain m0 where ps:
      "chat_pass_store py_str self complete TOOLS current_messages trs (s, w) =
         (case p of
            Return m r \<Rightarrow> (Return_store m r, (s[current_messages := m0], w'))
          | Raise e \<Rightarrow> (Raise_store e, (s[current_messages := m0], w'))
          | Again r msgs \<Rightarrow> (Again_store r, (s[current_messages := msgs], w')))"
      using chat_pass_store_refines [OF valid, of py_str self complete TOOLS trs w] p
      unfolding st by auto
    show ?thesis
    proof (cases p)
      case (Return m r)
      then show ?thesis using True p ps by (intro exI [of _ m0]) simp
    next
      case (Raise e)
      then show ?thesis using True p ps by (intro exI [of _ m0]) simp
    next
      case (Again r msgs)
      let ?s = "s[current_messages := msgs]"
      have len: "current_messages < length ?s" using valid by simp
      have at: "(r, msgs) = (r, ?s ! current_messages)" using valid by simp
      obtain m1 where
        "chat_loop_store py_str self complete TOOLS max_iterations current_messages r
           (iterations + 1) (?s, w') =
         (fst (chat_loop py_str self complete TOOLS max_iterations (r, msgs) (iterations + 1) w'),
          (?s[current_messages := m1],
           snd (chat_loop py_str self complete TOOLS max_iterations (r, msgs) (iterations + 1) w')))"
        using "1.IH" [OF True p [symmetric] Again at len] by blast
      then show ?thesis using True p ps Again
        by (intro exI [of _ m1]) simp
    qed
  qed
qed

section \<open>Claims\<close>

text \<open>
  C1, as stated: when the provider fails on a later iteration, \<open>Agent.chat\<close> surfaces a
  \<open>ProviderError\<close> and still returns the tool results of the earlier iterations. It
  does neither. With a provider that asks for the calculator and then fails, a cap of 1
  shows the result accumulated by the first iteration; with a cap of 2 the caller gets
  the backend's own exception and nothing else, and the chat route answers 500 with the
  text of the exception.
\<close>

theorem provider_failure_discards_results:
  "chat str_stub agent_assistant complete_then_fails TOOLS_calculator
     [user_message ''what is 2 + 2''] 1 (0, 0) =
     (Inr (limit_message,
           [\<lparr>tr_tool_call_id = ''call_1'', result = PyFloat (Finite 4 0), error = None\<rparr>]),
      (1, 1))
   \<and> chat str_stub agent_assistant complete_then_fails TOOLS_calculator
       [user_message ''what is 2 + 2''] 2 (0, 0) =
       (Inl (Exn ''APIConnectionError'' ''Connection error.''), (2, 1))
   \<and> api_chat str_stub get_agent_then_fails TOOLS_calculator ''uuid''
       (chat_request ''what is 2 + 2'') (0, 0) =
       (Inl (HTTPException 500 ''Connection error.''), (2, 1))"
  by (simp add: chat_def api_chat_def get_agent_then_fails_def chat_request_def
      pass1_then_fails pass2_then_fails)

text \<open>
  C1, amended: when the provider's \<open>complete\<close> fails on any iteration, here iteration
  \<open>k + 1\<close> after \<open>k\<close> iterations that dispatched tool calls, \<open>Agent.chat\<close> ends with that
  same failure, unwrapped, and with no return value: the tool results accumulated so
  far are dropped. The chat route answers an \<open>Exception\<close> with status 500 and the text of
  the exception only; a failure that is no \<open>Exception\<close> passes the route.
\<close>

theorem provider_failure_propagates:
  assumes "after_passes py_str self complete TOOLS k ([], messages) w =
             Some ((tool_results, current_messages), wk)"
      and "int k < max_iterations"
      and "complete current_messages wk = (Inl e, w')"
  shows "chat py_str self complete TOOLS messages max_iterations w = (Inl e, w')
       \<and> (\<forall>get_agent request uuid4.
             get_agent (agent_id request) = Some (self, complete)
               \<and> messages = [\<lparr>role = USER, content = rq_message request, name = None,
                               tool_call_id = None, tool_calls = None, metadata = None\<rparr>]
               \<and> max_iterations = 10 \<longrightarrow>
             api_chat py_str get_agent TOOLS uuid4 request w =
               (Inl (case e of Exn c m \<Rightarrow> HTTPException 500 m | _ \<Rightarrow> Uncaught e), w'))"
proof -
  have p: "chat_pass py_str self complete TOOLS (tool_results, current_messages) wk =
             (Raise e, w')"
    using assms(3) by (simp add: chat_pass_def)
  have "chat py_str self complete TOOLS messages max_iterations w =
          chat_loop py_str self complete TOOLS max_iterations (tool_results, current_messages)
            (0 + int k) wk"
    unfolding chat_def using chat_loop_after_passes [OF assms(1), of 0 max_iterations] assms(2)
    by simp
  also have "\<dots> = (Inl e, w')"
    by (subst chat_loop.simps) (simp add: assms(2) p)
  finally have c: "chat py_str self complete TOOLS messages max_iterations w = (Inl e, w')" .
  show ?thesis
  proof (intro conjI allI impI)
    show "chat py_str self complete TOOLS messages max_iterations w = (Inl e, w')" by (rule c)
  next
    fix get_agent :: "string \<Rightarrow> (AgentConfig \<times> 'a complete) option"
    fix request :: ChatRequest and uuid4 :: string
    assume a: "get_agent (agent_id request) = Some (self, complete)
               \<and> messages = [\<lparr>role = USER, content = rq_message request, name = None,
                               tool_call_id = None, tool_calls = None, metadata = None\<rparr>]
               \<and> max_iterations = 10"
    then have "chat py_str self complete TOOLS
             [\<lparr>role = USER, content = rq_message request, name = None, tool_call_id = None,
               tool_calls = None, metadata = None\<rparr>] 10 w = (Inl e, w')"
      using c by simp
    with a show "api_chat py_str get_agent TOOLS uuid4 request w =
               (Inl (case e of Exn c m \<Rightarrow> HTTPException 500 m | _ \<Rightarrow> Uncaught e), w')"
      using api_chat_failure [of get_agent request self complete py_str TOOLS w e w' uuid4]
      by blast
  qed
qed

theorem provider_failure_propagates_witness:
  "after_passes str_stub agent_assistant complete_then_fails TOOLS_calculator 1
     ([], [user_message ''what is 2 + 2'']) (0, 0) =
     Some (([\<lparr>tr_tool_call_id = ''call_1'', result = PyFloat (Finite 4 0), error = None\<rparr>],
            [user_message ''what is 2 + 2'',
             assistant_message ''Let me compute.'' (Some [calc_call ''call_1'' ''2 + 2'']),
             tool_message str_stub (calc_call ''call_1'' ''2 + 2'')
               \<lparr>tr_tool_call_id = ''call_1'', result = PyFloat (Finite 4 0), error = None\<rparr>]),
           (1, 1))
   \<and> chat str_stub agent_assistant complete_then_fails TOOLS_calculator
       [user_message ''what is 2 + 2''] 10 (0, 0) =
       (Inl (Exn ''APIConnectionError'' ''Connection error.''), (2, 1))
   \<and> api_chat str_stub get_agent_then_fails TOOLS_calculator ''uuid''
       (chat_request ''what is 2 + 2'') (0, 0) =
       (Inl (HTTPException 500 ''Connection error.''), (2, 1))"
proof -
  let ?r = "\<lparr>tr_tool_call_id = ''call_1'', result = PyFloat (Finite 4 0), error = None\<rparr>"
  let ?msgs = "[user_message ''what is 2 + 2'',
             assistant_message ''Let me compute.'' (Some [calc_call ''call_1'' ''2 + 2'']),
             tool_message str_stub (calc_call ''call_1'' ''2 + 2'') ?r]"
  have h1: "after_passes str_stub agent_assistant complete_then_fails TOOLS_calculator 1
     ([], [user_message ''what is 2 + 2'']) (0, 0) = Some (([?r], ?msgs), (1, 1))"
    by (simp add: pass1_then_fails)
  have h2: "int 1 < 10" by simp
  have h3: "complete_then_fails ?msgs (1, 1) =
      (Inl (Exn ''APIConnectionError'' ''Connection error.''), (2, 1))"
    by (simp add: complete_then_fails_def)
  note t = provider_failure_propagates
      [where py_str = str_stub and self = agent_assistant and complete = complete_then_fails
         and TOOLS = TOOLS_calculator and k = 1 and messages = "[user_message ''what is 2 + 2'']"
         and w = "(0, 0)" and tool_results = "[?r]" and current_messages = ?msgs
         and wk = "(1, 1)" and max_iterations = 10
         and e = "Exn ''APIConnectionError'' ''Connection error.''" and w' = "(2, 1)",
       OF h1 h2 h3]
  have g: "get_agent_then_fails (agent_id (chat_request ''what is 2 + 2'')) =
             Some (agent_assistant, complete_then_fails)
           \<and> [user_message ''what is 2 + 2''] =
             [\<lparr>role = USER, content = rq_message (chat_request ''what is 2 + 2''), name = None,
               tool_call_id = None, tool_calls = None, metadata = None\<rparr>]
           \<and> (10::int) = 10"
    by (simp add: get_agent_then_fails_def chat_request_def user_message_def)
  have a: "api_chat str_stub get_agent_then_fails TOOLS_calculator ''uuid''
       (chat_request ''what is 2 + 2'') (0, 0) =
       (Inl (HTTPException 500 ''Connection error.''), (2, 1))"
  proof -
    have "get_agent_then_fails (agent_id (chat_request ''what is 2 + 2'')) =
             Some (agent_assistant, complete_then_fails)
           \<and> [user_message ''what is 2 + 2''] =
             [\<lparr>role = USER, content = rq_message (chat_request ''what is 2 + 2''), name = None,
               tool_call_id = None, tool_calls = None, metadata = None\<rparr>]
           \<and> (10::int) = 10 \<longrightarrow>
          api_chat str_stub get_agent_then_fails TOOLS_calculator ''uuid''
            (chat_request ''what is 2 + 2'') (0, 0) =
          (Inl (case Exn ''APIConnectionError'' ''Connection error.'' of
                  Exn c m \<Rightarrow> HTTPException 500 m
                | _ \<Rightarrow> Uncaught (Exn ''APIConnectionError'' ''Connection error.'')), (2, 1))"
      using t [THEN conjunct2] by blast
    with g show ?thesis by simp
  qed
  show ?thesis using h1 t [THEN conjunct1] a by simp
qed



text \<open>
  C3, at the failing input: the assistant turn carries the tool calls \<open>A\<close>, \<open>B\<close>, \<open>C\<close>.
  The loop appends their tool messages in that order and hands the conversation to the
  provider, but the Anthropic adapter keeps only user and assistant messages: the second
  request to the backend holds the user message and the assistant text, and no tool
  result.
\<close>

theorem anthropic_request_without_tool_results:
  "chat_pass py_str agent_assistant anthropic_complete_log TOOLS_pure
     ([], [user_message ''compute'']) [] =
     (Again three_results
        [user_message ''compute'', first_reply,
         tool_reply ''A'' (py_str (PyFloat (Finite 4 0))),
         tool_reply ''B'' ''Invalid expression: division by zero'',
         tool_reply ''C'' []],
      [request_for [\<lparr>am_role = ''user'', am_content = ''compute''\<rparr>]])
   \<and> map rq_messages
       (snd (chat py_str agent_assistant anthropic_complete_log TOOLS_pure
          [user_message ''compute''] 10 [])) =
     [[\<lparr>am_role = ''user'', am_content = ''compute''\<rparr>],
      [\<lparr>am_role = ''user'', am_content = ''compute''\<rparr>,
       \<lparr>am_role = ''assistant'', am_content = ''Let me compute.''\<rparr>]]"
proof -
  have am: "anthropic_messages [user_message ''compute''] =
      [\<lparr>am_role = ''user'', am_content = ''compute''\<rparr>]"
    by (simp add: anthropic_messages_def user_message_def to_api_message_def)
  have am2: "anthropic_messages
      [user_message ''compute'', first_reply,
         tool_reply ''A'' (py_str (PyFloat (Finite 4 0))),
         tool_reply ''B'' ''Invalid expression: division by zero'',
         tool_reply ''C'' []] =
      [\<lparr>am_role = ''user'', am_content = ''compute''\<rparr>,
       \<lparr>am_role = ''assistant'', am_content = ''Let me compute.''\<rparr>]"
    by (simp add: anthropic_messages_def user_message_def to_api_message_def first_reply_def
        tool_reply_def)
  have p1: "chat_pass py_str agent_assistant anthropic_complete_log TOOLS_pure
     ([], [user_message ''compute'']) [] =
     (Again three_results
        [user_message ''compute'', first_reply,
         tool_reply ''A'' (py_str (PyFloat (Finite 4 0))),
         tool_reply ''B'' ''Invalid expression: division by zero'',
         tool_reply ''C'' []],
      [request_for [\<lparr>am_role = ''user'', am_content = ''compute''\<rparr>]])"
    using pass_log_first [of py_str "[user_message ''compute'']"] by (simp add: am)
  have p2: "chat_pass py_str agent_assistant anthropic_complete_log TOOLS_pure
     (three_results, [user_message ''compute'', first_reply,
         tool_reply ''A'' (py_str (PyFloat (Finite 4 0))),
         tool_reply ''B'' ''Invalid expression: division by zero'',
         tool_reply ''C'' []])
      [request_for [\<lparr>am_role = ''user'', am_content = ''compute''\<rparr>]] =
     (Return \<lparr>role = ASSISTANT, content = ''Done.'', name = None, tool_call_id = None,
           tool_calls = None,
           metadata = Some [(''model'', PyStr ''claude-3-5-sonnet-20241022''),
                       (''input_tokens'', PyInt 20), (''output_tokens'', PyInt 1)]\<rparr>
        three_results,
      [request_for [\<lparr>am_role = ''user'', am_content = ''compute''\<rparr>],
       request_for [\<lparr>am_role = ''user'', am_content = ''compute''\<rparr>,
       \<lparr>am_role = ''assistant'', am_content = ''Let me compute.''\<rparr>]])"
    by (simp add: chat_pass_def complete_log_later am2)
  have c: "snd (chat py_str agent_assistant anthropic_complete_log TOOLS_pure
          [user_message ''compute''] 10 []) =
      [request_for [\<lparr>am_role = ''user'', am_content = ''compute''\<rparr>],
       request_for [\<lparr>am_role = ''user'', am_content = ''compute''\<rparr>,
       \<lparr>am_role = ''assistant'', am_content = ''Let me compute.''\<rparr>]]"
    by (simp add: chat_def p1 p2)
  show ?thesis using p1 c by (simp add: request_for_def)
qed







text \<open>
  C6, as stated: an undecodable argument payload makes \<open>complete\<close> raise a
  \<open>ProviderError\<close>. For the payload \<open>1/0\<close> the adapter raises what \<open>eval\<close> raised, a
  \<open>ZeroDivisionError\<close>.
\<close>

theorem undecodable_arguments_not_ProviderError:
  "OpenAIProvider_complete (openai_create_stub ''1/0'') eval_stub ''gpt-4o''
     [user_message ''what is 2 + 2''] ''You are a helpful AI assistant.'' None None (0::nat) =
     (Inl (Exn ''ZeroDivisionError'' ''division by zero''), 0)"
  by (simp add: OpenAIProvider_complete_def openai_create_stub_def openai_reply_def
      openai_tool_calls_def openai_call_def decode_tool_call_def eval_stub_def)

text \<open>
  C6, amended: when the payload of some tool call of the response cannot be decoded
  (\<open>eval\<close> raises, or its value is not a string-keyed dictionary), \<open>complete\<close> raises
  the exception of such a decoding, the one of \<open>eval\<close> or the \<open>ValidationError\<close> of
  \<open>ToolCall\<close>, unwrapped; it returns no message, so nothing is coerced into an empty
  mapping.
\<close>

theorem undecodable_arguments_raise:
  assumes "create (openai_request mdl messages sys tls mt) w = (Inr response, w')"
      and "choices response = choice # others"
      and "om_tool_calls choice = Some tcs"
      and "tc \<in> set tcs" and "decode_tool_call py_eval tc = Inl e0"
  shows "\<exists>e tc'. OpenAIProvider_complete create py_eval mdl messages sys tls mt w = (Inl e, w')
           \<and> tc' \<in> set tcs \<and> decode_tool_call py_eval tc' = Inl e"
proof -
  obtain e tc' where p: "parse_tool_calls py_eval tcs = Inl e" "tc' \<in> set tcs"
      "decode_tool_call py_eval tc' = Inl e"
    using parse_tool_calls_fails [OF assms(4,5)] by blast
  have "tcs \<noteq> []" using assms(4) by auto
  then have "OpenAIProvider_complete create py_eval mdl messages sys tls mt w = (Inl e, w')"
    using assms(1,2,3) p(1) by (simp add: OpenAIProvider_complete_def openai_tool_calls_def)
  then show ?thesis using p(2,3) by blast
qed

theorem undecodable_arguments_raise_witness:
  "OpenAIProvider_complete (openai_create_stub ''[1, 2]'') eval_stub ''gpt-4o''
     [user_message ''what is 2 + 2''] ''You are a helpful AI assistant.'' None None (0::nat) =
     (Inl (Exn ''ValidationError'' ''arguments: Input should be a valid dictionary''), 0)"
proof -
  have h1: "openai_create_stub ''[1, 2]'' (openai_request ''gpt-4o''
      [user_message ''what is 2 + 2''] ''You are a helpful AI assistant.'' None None) (0::nat) =
      (Inr (openai_reply ''[1, 2]''), 0)"
    by (simp add: openai_create_stub_def)
  have h2: "choices (openai_reply ''[1, 2]'') =
      \<lparr>om_content = None, om_tool_calls = Some [openai_call ''[1, 2]'']\<rparr> # []"
    by (simp add: openai_reply_def)
  have h3: "om_tool_calls \<lparr>om_content = None, om_tool_calls = Some [openai_call ''[1, 2]'']\<rparr>
      = Some [openai_call ''[1, 2]'']"
    by simp
  have h4: "openai_call ''[1, 2]'' \<in> set [openai_call ''[1, 2]'']" by simp
  have h5: "decode_tool_call eval_stub (openai_call ''[1, 2]'') =
      Inl (Exn ''ValidationError'' ''arguments: Input should be a valid dictionary'')"
    by (simp add: decode_tool_call_def eval_stub_def openai_call_def ToolCall_init_def)
  from undecodable_arguments_raise
    [where create = "openai_create_stub ''[1, 2]''" and mdl = "''gpt-4o''"
       and messages = "[user_message ''what is 2 + 2'']"
       and sys = "''You are a helpful AI assistant.''" and tls = None and mt = None
       and w = "0::nat" and py_eval = eval_stub, OF h1 h2 h3 h4 h5] h5
  show ?thesis by auto
qed

text \<open>
  C7, at the failing input: the calculator returns 0.0 for "2 - 2", a successful result
  with the rendering "0.0". The tool message carries the call's identifier and the
  result is appended to the result list, but the content of the message is the empty
  string, for every rendering \<open>py_str\<close>: the test \<open>if result.result\<close> takes the falsy
  0.0 for an absent result.
\<close>

theorem falsy_result_rendered_empty:
  "dispatch py_str agent_assistant TOOLS_calculator [calc_call ''call_1'' ''2 - 2'']
     ([], [user_message ''what is 2 - 2'']) (1, 0) =
     (Inr ([\<lparr>tr_tool_call_id = ''call_1'', result = PyFloat (Finite 0 0), error = None\<rparr>],
           [user_message ''what is 2 - 2'',
            \<lparr>role = TOOL, content = [], name = None, tool_call_id = Some ''call_1'',
             tool_calls = None, metadata = None\<rparr>]),
      (1, 1))"
  by (simp add: execute_tool_cases TOOLS_calculator_def calc_call_def calculator_def
      calculator_value_def tool_message_def tool_content_def)

text \<open>
  C8, as stated: construction of a Message that violates the invariant fails with a
  \<open>ValidationError\<close>. The class has no validator: a tool message without a tool-call
  identifier, an assistant message with an empty tool-call list and one with two tool
  calls of the same identifier are all constructed.
\<close>

theorem Message_init_accepts_invalid:
  "Message_init (Some TOOL) (Some ''4.0'') None None None None = Inr orphan_tool_message
   \<and> \<not> spec_Message_invariant orphan_tool_message
   \<and> Message_init (Some ASSISTANT) (Some []) None None (Some []) None =
       Inr (assistant_message [] (Some []))
   \<and> \<not> spec_Message_invariant (assistant_message [] (Some []))
   \<and> Message_init (Some ASSISTANT) (Some []) None None
         (Some [calc_call ''call_1'' ''2 + 2'', calc_call ''call_1'' ''2 - 2'']) None =
       Inr (assistant_message []
              (Some [calc_call ''call_1'' ''2 + 2'', calc_call ''call_1'' ''2 - 2'']))
   \<and> \<not> spec_Message_invariant
         (assistant_message []
            (Some [calc_call ''call_1'' ''2 + 2'', calc_call ''call_1'' ''2 - 2'']))"
  by (simp add: Message_init_def spec_Message_invariant_def calc_call_def
      orphan_tool_message_def assistant_message_def)

text \<open>
  C8, amended: construction of a Message checks the presence of \<open>role\<close> and \<open>content\<close>
  and nothing else. With both given it succeeds for every identifier and every tool-call
  list; without one of them it fails with a \<open>ValidationError\<close>.
\<close>

theorem Message_init_checks_presence_only:
  "Message_init (Some r) (Some c) n tid tcs md =
     Inr \<lparr>role = r, content = c, name = n, tool_call_id = tid, tool_calls = tcs, metadata = md\<rparr>
   \<and> (\<exists>txt. Message_init None c' n tid tcs md = Inl (Exn ''ValidationError'' txt))
   \<and> (\<exists>txt. Message_init r' None n tid tcs md = Inl (Exn ''ValidationError'' txt))"
  by (simp add: Message_init_def split: option.splits)

text \<open>
  C9, as stated: \<open>_execute_tool\<close> never raises. The calculator on
  \<open>abs.__self__.__import__('sys').exit(3)\<close> raises \<open>SystemExit\<close>, which
  \<open>except Exception\<close> does not catch: it leaves \<open>_execute_tool\<close>.
\<close>

theorem exit_leaves_execute_tool:
  "execute_tool agent_assistant TOOLS_calculator (calc_call ''call_1'' exit_expression) (0, 0) =
     (Inl (BaseExn ''SystemExit'' ''3''), (0, 1))"
  by (simp add: execute_calc_exit)

text \<open>
  C9, amended: when the tool of a call comes back, with a value or with an exception of
  class \<open>Exception\<close> (or when no tool of that name is registered), \<open>_execute_tool\<close>
  returns a result that carries the identifier of the call and in which result and
  error are never both set: with an error the result is \<open>None\<close>, and the result of a tool
  that returned has no error. What a tool ends with otherwise (\<open>SystemExit\<close>,
  \<open>KeyboardInterrupt\<close>, \<open>CancelledError\<close>, no return) leaves \<open>_execute_tool\<close> as it is.
  Whenever \<open>_execute_tool\<close> returns, its result has these properties.
\<close>

theorem execute_tool_result:
  "((\<forall>t e w1. TOOLS (tc_name tc) = Some t \<and> execute t (tc_arguments tc) w = (Inl e, w1)
        \<longrightarrow> is_Exception e) \<longrightarrow>
      (\<exists>r w'. execute_tool self TOOLS tc w = (Inr r, w') \<and> tr_tool_call_id r = tc_id tc \<and>
         (error r = None \<or> result r = PyNone) \<and>
         (error r \<noteq> None \<longrightarrow> result r = PyNone) \<and>
         (\<forall>t v w1. TOOLS (tc_name tc) = Some t \<and> execute t (tc_arguments tc) w = (Inr v, w1)
            \<longrightarrow> r = \<lparr>tr_tool_call_id = tc_id tc, result = v, error = None\<rparr> \<and> w' = w1)))
   \<and> (\<forall>t e w1. TOOLS (tc_name tc) = Some t \<and> execute t (tc_arguments tc) w = (Inl e, w1)
          \<and> \<not> is_Exception e \<longrightarrow> execute_tool self TOOLS tc w = (Inl e, w1))
   \<and> (\<forall>r w'. execute_tool self TOOLS tc w = (Inr r, w') \<longrightarrow>
          tr_tool_call_id r = tc_id tc \<and> (error r = None \<or> result r = PyNone)
            \<and> (error r \<noteq> None \<longrightarrow> result r = PyNone))"
proof (intro conjI allI impI)
  assume ok: "\<forall>t e w1. TOOLS (tc_name tc) = Some t \<and> execute t (tc_arguments tc) w = (Inl e, w1)
        \<longrightarrow> is_Exception e"
  then obtain r w' where r: "execute_tool self TOOLS tc w = (Inr r, w')"
    using execute_tool_returns [of TOOLS tc w self] by blast
  have "tr_tool_call_id r = tc_id tc \<and>
         (error r = None \<or> result r = PyNone) \<and>
         (error r \<noteq> None \<longrightarrow> result r = PyNone) \<and>
         (\<forall>t v w1. TOOLS (tc_name tc) = Some t \<and> execute t (tc_arguments tc) w = (Inr v, w1)
            \<longrightarrow> r = \<lparr>tr_tool_call_id = tc_id tc, result = v, error = None\<rparr> \<and> w' = w1)"
    using r by (auto simp: execute_tool_cases split: option.splits prod.splits sum.splits
        exn.splits)
  with r show "\<exists>r w'. execute_tool self TOOLS tc w = (Inr r, w') \<and> tr_tool_call_id r = tc_id tc \<and>
         (error r = None \<or> result r = PyNone) \<and>
         (error r \<noteq> None \<longrightarrow> result r = PyNone) \<and>
         (\<forall>t v w1. TOOLS (tc_name tc) = Some t \<and> execute t (tc_arguments tc) w = (Inr v, w1)
            \<longrightarrow> r = \<lparr>tr_tool_call_id = tc_id tc, result = v, error = None\<rparr> \<and> w' = w1)"
    by blast
next
  fix t e w1
  assume "TOOLS (tc_name tc) = Some t \<and> execute t (tc_arguments tc) w = (Inl e, w1)
          \<and> \<not> is_Exception e"
  then show "execute_tool self TOOLS tc w = (Inl e, w1)"
    by (cases e) (simp_all add: execute_tool_cases)
next
  fix r w'
  assume r: "execute_tool self TOOLS tc w = (Inr r, w')"
  then show "tr_tool_call_id r = tc_id tc"
    by (rule execute_tool_id)
  show "error r = None \<or> result r = PyNone"
    using r by (auto simp: execute_tool_cases split: option.splits prod.splits sum.splits
        exn.splits)
  assume "error r \<noteq> None"
  then show "result r = PyNone"
    using r by (auto simp: execute_tool_cases split: option.splits prod.splits sum.splits
        exn.splits)
qed

theorem execute_tool_result_witness:
  "(\<exists>r w'. execute_tool agent_assistant TOOLS_calculator (calc_call ''call_1'' ''1/0'') (0, 0)
       = (Inr r, w')
      \<and> tr_tool_call_id r = ''call_1'' \<and> result r = PyNone
      \<and> error r = Some ''Invalid expression: division by zero'')
   \<and> execute_tool agent_assistant TOOLS_calculator (calc_call ''call_2'' exit_expression) (0, 0)
       = (Inl (BaseExn ''SystemExit'' ''3''), (0, 1))"
proof -
  let ?a = "calc_call ''call_1'' ''1/0''"
  let ?x = "calc_call ''call_2'' exit_expression"
  have h1: "\<forall>t e w1. TOOLS_calculator (tc_name ?a) = Some t
              \<and> execute t (tc_arguments ?a) (0, 0) = (Inl e, w1) \<longrightarrow> is_Exception e"
    by (auto simp: TOOLS_calculator_def calc_call_def calculator_def calculator_value_def)
  have h2: "TOOLS_calculator (tc_name ?x) = Some calculator
            \<and> execute calculator (tc_arguments ?x) (0, 0) =
                (Inl (BaseExn ''SystemExit'' ''3''), (0, 1))
            \<and> \<not> is_Exception (BaseExn ''SystemExit'' ''3'')"
    by (simp add: TOOLS_calculator_def calc_call_def calculator_def calculator_value_def
        exit_expression_def)
  note ta = execute_tool_result [of TOOLS_calculator ?a "(0, 0)" agent_assistant]
  note tx = execute_tool_result [of TOOLS_calculator ?x "(0, 0)" agent_assistant]
  obtain r w' where r:
    "execute_tool agent_assistant TOOLS_calculator ?a (0, 0) = (Inr r, w')"
    "tr_tool_call_id r = tc_id ?a"
    using ta [THEN conjunct1] h1 by blast
  have v: "result r = PyNone \<and> error r = Some ''Invalid expression: division by zero''"
    using r(1) by (auto simp: execute_calc_zero_division)
  have x: "execute_tool agent_assistant TOOLS_calculator ?x (0, 0) =
             (Inl (BaseExn ''SystemExit'' ''3''), (0, 1))"
    using tx [THEN conjunct2, THEN conjunct1] h2 by blast
  show ?thesis
    using r v x by (intro conjI exI [of _ r] exI [of _ w']) (simp_all add: calc_call_def)
qed

text \<open>
  C10: \<open>Agent.chat\<close> copies the caller's list before it appends. After the call, also
  after one that raised, the caller's list object and every other list object that
  existed before hold what they held; the appends went to the one new object. The
  outcome is the one of the loop on values.
\<close>

theorem chat_leaves_callers_list:
  assumes "messages < length s"
  shows "\<exists>out s' w'. chat_store py_str self complete TOOLS messages max_iterations (s, w) =
                       (out, (s', w'))
           \<and> s' ! messages = s ! messages
           \<and> take (length s) s' = s
           \<and> (out, w') = chat py_str self complete TOOLS (s ! messages) max_iterations w"
proof -
  let ?s1 = "s @ [s ! messages]"
  have len: "length s < length ?s1" by simp
  have at: "?s1 ! length s = s ! messages" by simp
  obtain m where m:
    "chat_loop_store py_str self complete TOOLS max_iterations (length s) [] 0 (?s1, w) =
       (fst (chat_loop py_str self complete TOOLS max_iterations ([], ?s1 ! length s) 0 w),
        (?s1[length s := m],
         snd (chat_loop py_str self complete TOOLS max_iterations ([], ?s1 ! length s) 0 w)))"
    using chat_loop_store_refines [OF refl len, of py_str self complete TOOLS max_iterations
        "[]" 0 w]
    by blast
  have upd: "?s1[length s := m] = s @ [m]" by simp
  have "chat_store py_str self complete TOOLS messages max_iterations (s, w) =
          (fst (chat py_str self complete TOOLS (s ! messages) max_iterations w),
           (s @ [m], snd (chat py_str self complete TOOLS (s ! messages) max_iterations w)))"
    using m unfolding upd at by (simp add: chat_store_def list_copy_def chat_def)
  then show ?thesis using assms
    by (intro exI [of _ "fst (chat py_str self complete TOOLS (s ! messages) max_iterations w)"]
          exI [of _ "s @ [m]"]
          exI [of _ "snd (chat py_str self complete TOOLS (s ! messages) max_iterations w)"])
       (simp add: nth_append)
qed

theorem chat_leaves_callers_list_witness:
  "(0::nat) < length [[user_message ''what is 2 + 2'']] \<and>
   (\<exists>out s' w'.
      chat_store str_stub agent_assistant complete_always_calls TOOLS_calculator 0 1
        ([[user_message ''what is 2 + 2'']], (0, 0)) = (out, (s', w'))
      \<and> s' ! 0 = [user_message ''what is 2 + 2'']
      \<and> take 1 s' = [[user_message ''what is 2 + 2'']]) \<and>
   chat_store str_stub agent_assistant complete_always_calls TOOLS_calculator 0 1
     ([[user_message ''what is 2 + 2'']], (0, 0)) =
     (Inr (limit_message,
           [\<lparr>tr_tool_call_id = ''call_1'', result = PyFloat (Finite 4 0), error = None\<rparr>]),
      ([[user_message ''what is 2 + 2''],
        [user_message ''what is 2 + 2'',
         assistant_message ''Let me compute.'' (Some [calc_call ''call_1'' ''2 + 2'']),
         tool_message str_stub (calc_call ''call_1'' ''2 + 2'')
           \<lparr>tr_tool_call_id = ''call_1'', result = PyFloat (Finite 4 0), error = None\<rparr>]],
       (1, 1)))"
proof -
  have h: "(0::nat) < length [[user_message ''what is 2 + 2'']]" by simp
  have e: "chat_store str_stub agent_assistant complete_always_calls TOOLS_calculator 0 1
     ([[user_message ''what is 2 + 2'']], (0, 0)) =
     (Inr (limit_message,
           [\<lparr>tr_tool_call_id = ''call_1'', result = PyFloat (Finite 4 0), error = None\<rparr>]),
      ([[user_message ''what is 2 + 2''],
        [user_message ''what is 2 + 2'',
         assistant_message ''Let me compute.'' (Some [calc_call ''call_1'' ''2 + 2'']),
         tool_message str_stub (calc_call ''call_1'' ''2 + 2'')
           \<lparr>tr_tool_call_id = ''call_1'', result = PyFloat (Finite 4 0), error = None\<rparr>]],
       (1, 1)))"
    by (simp add: chat_store_def list_copy_def chat_pass_store_def complete_always_calls_def
        assistant_message_def list_append_def execute_calc_4)
  show ?thesis
    using h e chat_leaves_callers_list [OF h, of str_stub agent_assistant complete_always_calls
        TOOLS_calculator 1 "(0, 0)"]
    by simp
qed

end
